theory Spec2Isabelle
  imports Complex_Main "HOL-Library.Multiset" "HOL-Library.Sublist"
begin

section \<open>The DeepAR example script \<open>examples/ar.py\<close>\<close>

text \<open>
  The script is a straight-line driver over a third-party stack (pandas, torch, lightning,
  pytorch-forecasting). The embedding keeps the script's own control flow, its attribute
  assignments and the arguments it passes; every call into the stack is an event of a
  trace, answered by a \<open>framework\<close> that is a parameter of the model. A framework call
  either returns a value or raises; an exception ends the run of the calling function,
  as an uncaught Python exception does.

  Conventions of the model:
  \<^item> Python floats are idealised as real numbers, Python ints are \<open>int\<close>.
  \<^item> Objects owned by the stack (datasets, dataloaders, trainer, network, figures) are
    references of type \<open>obj\<close>; what the stack does with them is part of its answers.
  \<^item> The attributes the script assigns (\<open>model.hparams.*\<close>, \<open>trainer.limit_train_batches\<close>)
    live in a store that only the script's own assignments write.
  \<^item> Every framework call is taken to return or raise, and an iterator to end after
    finitely many steps: the model covers the runs of the script that end.
  \<^item> The end of an iteration (\<open>StopIteration\<close>) is an answer of \<open>next\<close>, not an exception:
    it ends the loop, as the language defines.
\<close>

subsection \<open>Values\<close>

type_synonym obj = nat

datatype exn = Exn string

datatype pyval = PyNone | PyBool bool | PyInt int | PyFloat real | PyStr string

text \<open>The frame returned by \<open>generate_ar_data\<close> has the columns \<open>series\<close>, \<open>time_idx\<close>
  and \<open>value\<close>; \<open>main\<close> adds the columns \<open>static\<close> and \<open>date\<close>.\<close>

record raw_row =
  series :: int
  time_idx :: int
  value_col :: real

record row = raw_row +
  static :: string
  date :: int

text \<open>A tensor is its shape and its elements in row-major order.\<close>

record tensor =
  shape :: "nat list"
  elems :: "real list"

record dataset_kwargs =
  kw_time_idx :: string
  kw_target :: string
  kw_categorical_encoders :: "(string \<times> obj) list"
  kw_group_ids :: "string list"
  kw_static_categoricals :: "string list"
  kw_min_encoder_length :: int
  kw_max_encoder_length :: int
  kw_min_prediction_length :: int
  kw_max_prediction_length :: int
  kw_time_varying_unknown_reals :: "string list"
  kw_time_varying_known_reals :: "string list"
  kw_target_normalizer :: obj
  kw_add_relative_time_idx :: bool
  kw_add_target_scales :: bool
  kw_randomize_length :: pyval

record early_stopping_kwargs =
  kw_monitor :: string
  kw_min_delta :: real
  kw_patience :: int
  kw_verbose :: bool
  kw_mode :: string

record trainer_kwargs =
  kw_max_epochs :: int
  kw_accelerator :: string
  kw_gradient_clip_val :: real
  kw_limit_train_batches :: pyval
  kw_limit_val_batches :: pyval
  kw_callbacks :: "obj list"

record deepar_kwargs =
  kw_learning_rate :: real
  kw_hidden_size :: int
  kw_dropout :: real
  kw_loss :: obj
  kw_log_interval :: int
  kw_log_val_interval :: int

text \<open>What a \<open>print\<close> shows after its literal text.\<close>

datatype shown = Show_val pyval | Show_tensor tensor | Show_fixed1 real string

text \<open>
  A value that the stack hands back and the script takes apart. \<open>Sequence xs\<close> is any value
  whose iteration yields \<open>xs\<close> (a tuple, a list, a named tuple); \<open>Opaque\<close> is a value that
  cannot be iterated; a tensor iterates over its slices along the first dimension.
\<close>

datatype pyobject = Opaque obj | Tensor_of tensor | Sequence "pyobject list"

text \<open>The iterator obtained from a dataloader: its reference, the items that \<open>next\<close>
  delivers in turn, and how it ends: by exhaustion, or by an exception of \<open>next\<close>.\<close>

record iterator =
  it_ref :: obj
  it_items :: "pyobject list"
  it_end :: "exn option"

subsection \<open>Framework calls and traces\<close>

datatype call =
    Generate_ar_data real int int
  | To_timedelta "int list" string
  | Timestamp_add int "int list"
  | Series_sample "int list" int
  | NaNLabelEncoder
  | Encoder_fit obj "int list"
  | GroupNormalizer "string list"
  | TimeSeriesDataSet "row list" dataset_kwargs
  | From_dataset obj "row list" bool
  | To_dataloader obj bool int int
  | EarlyStopping early_stopping_kwargs
  | LearningRateMonitor
  | Trainer trainer_kwargs
  | NormalDistributionLoss
  | DeepAR_from_dataset obj deepar_kwargs
  | Model_size obj
  | Print string shown
  | Set_num_threads int
  | Trainer_fit obj obj obj obj
  | Iter_dataloader obj
  | Next obj
  | Torch_cat "pyobject list"
  | Model_predict obj obj "(string \<times> pyval) list"
  | Tensor_sub tensor pyobject
  | Tensor_abs tensor
  | Tensor_mean tensor
  | Model_predict_raw obj obj "(string \<times> pyval) list"
  | Model_plot_prediction obj pyobject pyobject int bool
  | Tuner obj
  | Lr_find obj obj obj obj real real
  | Suggestion obj
  | Result_plot obj bool bool
  | Fig_show obj

text \<open>The answer to a call, as the trace records it. \<open>R_next None\<close> is the end of an
  iteration: the iterator is exhausted.\<close>

datatype reply =
    R_none
  | R_obj obj
  | R_val pyval
  | R_int int
  | R_frame "raw_row list"
  | R_series "int list"
  | R_tensor tensor
  | R_object pyobject
  | R_next "pyobject option"

type_synonym event = "call \<times> (exn + reply)"

type_synonym loc = "obj \<times> string list"

record world =
  trace :: "event list"
  store :: "loc \<Rightarrow> pyval option"

text \<open>The framework answers a call in the world in which it is made; the world holds the
  whole history, so an answer may depend on everything that happened before.\<close>

record framework =
  ask_none :: "world \<Rightarrow> call \<Rightarrow> exn + unit"
  ask_obj :: "world \<Rightarrow> call \<Rightarrow> exn + obj"
  ask_val :: "world \<Rightarrow> call \<Rightarrow> exn + pyval"
  ask_int :: "world \<Rightarrow> call \<Rightarrow> exn + int"
  ask_frame :: "world \<Rightarrow> call \<Rightarrow> exn + raw_row list"
  ask_series :: "world \<Rightarrow> call \<Rightarrow> exn + int list"
  ask_iter :: "world \<Rightarrow> call \<Rightarrow> exn + iterator"
  ask_tensor :: "world \<Rightarrow> call \<Rightarrow> exn + tensor"
  ask_object :: "world \<Rightarrow> call \<Rightarrow> exn + pyobject"

subsection \<open>Programs: state passing with exceptions\<close>

type_synonym 'a prog = "world \<Rightarrow> (exn + 'a) \<times> world"

definition ret :: "'a \<Rightarrow> 'a prog" where
  "ret x w = (Inr x, w)"

text \<open>A step of the interpreter itself, without a call: it returns or raises and leaves the
  world as it is.\<close>

definition lift :: "exn + 'a \<Rightarrow> 'a prog" where
  "lift r w = (r, w)"

definition andthen :: "'a prog \<Rightarrow> ('a \<Rightarrow> 'b prog) \<Rightarrow> 'b prog" where
  "andthen m f w = (case m w of (Inl e, w') \<Rightarrow> (Inl e, w') | (Inr x, w') \<Rightarrow> f x w')"

definition invoke :: "(world \<Rightarrow> call \<Rightarrow> exn + 'a) \<Rightarrow> ('a \<Rightarrow> reply) \<Rightarrow> call \<Rightarrow> 'a prog" where
  "invoke ask as_reply c w =
     (let r = ask w c in (r, w\<lparr>trace := trace w @ [(c, map_sum id as_reply r)]\<rparr>))"

definition call_none :: "framework \<Rightarrow> call \<Rightarrow> unit prog" where
  "call_none fw = invoke (ask_none fw) (\<lambda>_. R_none)"

definition call_obj :: "framework \<Rightarrow> call \<Rightarrow> obj prog" where
  "call_obj fw = invoke (ask_obj fw) R_obj"

definition call_val :: "framework \<Rightarrow> call \<Rightarrow> pyval prog" where
  "call_val fw = invoke (ask_val fw) R_val"

definition call_int :: "framework \<Rightarrow> call \<Rightarrow> int prog" where
  "call_int fw = invoke (ask_int fw) R_int"

definition call_frame :: "framework \<Rightarrow> call \<Rightarrow> raw_row list prog" where
  "call_frame fw = invoke (ask_frame fw) R_frame"

definition call_series :: "framework \<Rightarrow> call \<Rightarrow> int list prog" where
  "call_series fw = invoke (ask_series fw) R_series"

definition call_iter :: "framework \<Rightarrow> call \<Rightarrow> iterator prog" where
  "call_iter fw = invoke (ask_iter fw) (\<lambda>it. R_obj (it_ref it))"

definition call_tensor :: "framework \<Rightarrow> call \<Rightarrow> tensor prog" where
  "call_tensor fw = invoke (ask_tensor fw) R_tensor"

definition call_object :: "framework \<Rightarrow> call \<Rightarrow> pyobject prog" where
  "call_object fw = invoke (ask_object fw) R_object"

text \<open>\<open>print\<close> is the interpreter's own: it is recorded and returns.\<close>

definition print :: "string \<Rightarrow> shown \<Rightarrow> unit prog" where
  "print s v = invoke (\<lambda>_ _. Inr ()) (\<lambda>_. R_none) (Print s v)"

text \<open>Attribute assignment and attribute read; reading an attribute that was never set
  raises \<open>AttributeError\<close>.\<close>

definition setattr :: "loc \<Rightarrow> pyval \<Rightarrow> unit prog" where
  "setattr l v w = (Inr (), w\<lparr>store := (store w)(l \<mapsto> v)\<rparr>)"

definition getattr :: "loc \<Rightarrow> pyval prog" where
  "getattr l w = (case store w l of None \<Rightarrow> (Inl (Exn ''AttributeError''), w)
                                  | Some v \<Rightarrow> (Inr v, w))"

text \<open>A \<open>for\<close> loop over a list: the body runs for each element in order, and an
  exception raised by the body ends the loop.\<close>

fun for_in :: "'a list \<Rightarrow> ('a \<Rightarrow> unit prog) \<Rightarrow> unit prog" where
  "for_in [] body = ret ()"
| "for_in (x # xs) body = andthen (body x) (\<lambda>_. for_in xs body)"

subsection \<open>Unpacking and iteration\<close>

text \<open>The slices of a tensor along its first dimension, as iterating the tensor yields them.\<close>

fun chunks :: "nat \<Rightarrow> nat \<Rightarrow> 'a list \<Rightarrow> 'a list list" where
  "chunks 0 k xs = []"
| "chunks (Suc n) k xs = take k xs # chunks n k (drop k xs)"

definition slices :: "tensor \<Rightarrow> tensor list" where
  "slices t = map (\<lambda>es. \<lparr>shape = tl (shape t), elems = es\<rparr>)
                (chunks (hd (shape t)) (prod_list (tl (shape t))) (elems t))"

text \<open>The items that iterating a value yields; a value that cannot be iterated, and a tensor
  without dimensions, raise \<open>TypeError\<close>.\<close>

fun items_of :: "pyobject \<Rightarrow> exn + pyobject list" where
  "items_of (Opaque _) = Inl (Exn ''TypeError'')"
| "items_of (Tensor_of t) =
     (if shape t = [] then Inl (Exn ''TypeError'') else Inr (map Tensor_of (slices t)))"
| "items_of (Sequence xs) = Inr xs"

text \<open>The assignment \<open>a, b = v\<close>: it raises \<open>ValueError\<close> when \<open>v\<close> does not yield exactly two
  items. It is the interpreter's own and makes no call.\<close>

definition two_items :: "pyobject \<Rightarrow> exn + pyobject \<times> pyobject" where
  "two_items v =
     (case items_of v of
        Inl e \<Rightarrow> Inl e
      | Inr xs \<Rightarrow> if length xs = 2 then Inr (xs ! 0, xs ! 1) else Inl (Exn ''ValueError''))"

definition unpack2 :: "pyobject \<Rightarrow> (pyobject \<times> pyobject) prog" where
  "unpack2 v = lift (two_items v)"

text \<open>The target \<open>_, (y, _)\<close> of the comprehension in \<open>eval_predictions\<close>: the batch is
  unpacked into two, and its second item into two again.\<close>

definition batch_target :: "pyobject \<Rightarrow> exn + pyobject" where
  "batch_target b =
     (case two_items b of
        Inl e \<Rightarrow> Inl e
      | Inr (_, yw) \<Rightarrow> (case two_items yw of Inl e \<Rightarrow> Inl e | Inr (y, _) \<Rightarrow> Inr y))"

definition unpack_batch :: "pyobject \<Rightarrow> pyobject prog" where
  "unpack_batch b = lift (batch_target b)"

text \<open>One step of an iterator: a call of \<open>next\<close> that delivers an item, reports exhaustion,
  or raises.\<close>

definition next_item :: "obj \<Rightarrow> exn + pyobject option \<Rightarrow> pyobject option prog" where
  "next_item it answer = invoke (\<lambda>_ _. answer) R_next (Next it)"

text \<open>The comprehension \<open>[y for _, (y, _) in iter(val_dataloader)]\<close>: one call of \<open>next\<close> and
  one unpacking per batch, then the call of \<open>next\<close> that ends the iteration.\<close>

fun comprehension :: "obj \<Rightarrow> pyobject list \<Rightarrow> exn option \<Rightarrow> pyobject list prog" where
  "comprehension it [] ending =
     andthen (next_item it (case ending of None \<Rightarrow> Inr None | Some e \<Rightarrow> Inl e)) (\<lambda>_.
     ret [])"
| "comprehension it (b # bs) ending =
     andthen (next_item it (Inr (Some b))) (\<lambda>_.
     andthen (unpack_batch b) (\<lambda>y.
     andthen (comprehension it bs ending) (\<lambda>ys.
     ret (y # ys))))"

subsection \<open>Tensor operations of torch\<close>

text \<open>
  The operations are calls into torch and are recorded like every other call. The model
  fixes their result where the script's use is unambiguous: concatenation along dimension 0
  of tensors that agree on the other dimensions, the difference of two tensors of the same
  shape, the elementwise absolute value, the mean over all elements of a non-empty tensor.
  Every other case (an empty list, a value that is not a tensor, shapes that differ, the
  mean of an empty tensor) is left to the framework's answer. A tensor is well formed when
  it has as many elements as its shape says.
\<close>

definition wellformed :: "tensor \<Rightarrow> bool" where
  "wellformed t \<longleftrightarrow> length (elems t) = prod_list (shape t)"

fun tensor_of :: "pyobject \<Rightarrow> tensor option" where
  "tensor_of (Tensor_of t) = Some t"
| "tensor_of _ = None"

definition catenable :: "tensor list \<Rightarrow> bool" where
  "catenable ts \<longleftrightarrow>
     ts \<noteq> [] \<and>
     list_all (\<lambda>t. wellformed t \<and> shape t \<noteq> [] \<and> tl (shape t) = tl (shape (hd ts))) ts"

definition cat :: "tensor list \<Rightarrow> tensor" where
  "cat ts = \<lparr>shape = sum_list (map (\<lambda>t. hd (shape t)) ts) # tl (shape (hd ts)),
            elems = concat (map elems ts)\<rparr>"

definition torch_cat :: "framework \<Rightarrow> pyobject list \<Rightarrow> tensor prog" where
  "torch_cat fw ys =
     invoke (\<lambda>w c.
       if length (List.map_filter tensor_of ys) = length ys \<and>
          catenable (List.map_filter tensor_of ys)
       then Inr (cat (List.map_filter tensor_of ys))
       else ask_tensor fw w c) R_tensor (Torch_cat ys)"

definition tensor_sub :: "framework \<Rightarrow> tensor \<Rightarrow> pyobject \<Rightarrow> tensor prog" where
  "tensor_sub fw a p =
     invoke (\<lambda>w c.
       case tensor_of p of
         None \<Rightarrow> ask_tensor fw w c
       | Some b \<Rightarrow>
           if wellformed a \<and> wellformed b \<and> shape a = shape b
           then Inr \<lparr>shape = shape a, elems = map2 (\<lambda>x y. x - y) (elems a) (elems b)\<rparr>
           else ask_tensor fw w c) R_tensor (Tensor_sub a p)"

definition tensor_abs :: "tensor \<Rightarrow> tensor prog" where
  "tensor_abs a =
     invoke (\<lambda>w c. Inr \<lparr>shape = shape a, elems = map abs (elems a)\<rparr>) R_tensor (Tensor_abs a)"

definition tensor_mean :: "framework \<Rightarrow> tensor \<Rightarrow> tensor prog" where
  "tensor_mean fw a =
     invoke (\<lambda>w c.
       if elems a \<noteq> []
       then Inr \<lparr>shape = [], elems = [sum_list (elems a) / real (length (elems a))]\<rparr>
       else ask_tensor fw w c) R_tensor (Tensor_mean a)"

subsection \<open>Dates of pandas\<close>

text \<open>
  Dates are day numbers (days since 1 January 1970). pandas keeps a time span and a time
  stamp as 64-bit counts of nanoseconds, which reach 106751 days to either side:
  \<open>pd.to_timedelta(\<dots>, "D")\<close> raises \<open>OutOfBoundsTimedelta\<close> for a span beyond that, and adding
  spans to a time stamp raises \<open>OverflowError\<close> when a sum leaves that range.
\<close>

definition max_days :: int where
  "max_days = 106751"

definition to_timedelta :: "int list \<Rightarrow> string \<Rightarrow> int list prog" where
  "to_timedelta days unit =
     invoke (\<lambda>w c.
       if list_all (\<lambda>d. \<bar>d\<bar> \<le> max_days) days then Inr days
       else Inl (Exn ''OutOfBoundsTimedelta'')) R_series (To_timedelta days unit)"

definition timestamp_add :: "int \<Rightarrow> int list \<Rightarrow> int list prog" where
  "timestamp_add ts deltas =
     invoke (\<lambda>w c.
       if list_all (\<lambda>d. \<bar>ts + d\<bar> \<le> max_days) deltas then Inr (map (\<lambda>d. ts + d) deltas)
       else Inl (Exn ''OverflowError'')) R_series (Timestamp_add ts deltas)"

subsection \<open>The script\<close>

definition TRAINER_KWARGS :: "(string \<times> pyval) list" where
  "TRAINER_KWARGS = [(''accelerator'', PyStr ''cpu'')]"

definition fine_optimal_lr :: "framework \<Rightarrow> obj \<Rightarrow> obj \<Rightarrow> obj \<Rightarrow> obj \<Rightarrow> pyval prog" where
  "fine_optimal_lr fw trainer model train_dataloader val_dataloader =
     andthen (setattr (model, [''hparams'', ''log_interval'']) (PyInt (- 1))) (\<lambda>_.
     andthen (setattr (model, [''hparams'', ''log_val_interval'']) (PyInt (- 1))) (\<lambda>_.
     andthen (setattr (trainer, [''limit_train_batches'']) (PyFloat 1)) (\<lambda>_.
     andthen (call_obj fw (Tuner trainer)) (\<lambda>tuner.
     andthen (call_obj fw (Lr_find tuner model train_dataloader val_dataloader (1 / 100000) 100))
       (\<lambda>res.
     andthen (call_val fw (Suggestion res)) (\<lambda>s.
     andthen (print ''suggested learning rate: '' (Show_val s)) (\<lambda>_.
     andthen (call_obj fw (Result_plot res True True)) (\<lambda>fig.
     andthen (call_none fw (Fig_show fig)) (\<lambda>_.
     andthen (call_val fw (Suggestion res)) (\<lambda>s'.
     andthen (setattr (model, [''hparams'', ''learning_rate'']) s') (\<lambda>_.
     getattr (model, [''hparams'', ''learning_rate'']))))))))))))"

definition fit_model :: "framework \<Rightarrow> obj \<Rightarrow> obj \<Rightarrow> obj \<Rightarrow> obj \<Rightarrow> unit prog" where
  "fit_model fw trainer model train_loader val_dataloader =
     andthen (call_none fw (Set_num_threads 10)) (\<lambda>_.
     call_none fw (Trainer_fit trainer model train_loader val_dataloader))"

definition eval_predictions ::
  "framework \<Rightarrow> obj \<Rightarrow> obj \<Rightarrow> (string \<times> pyval) list \<Rightarrow> tensor prog" where
  "eval_predictions fw model val_dataloader kwargs =
     andthen (call_iter fw (Iter_dataloader val_dataloader)) (\<lambda>it.
     andthen (comprehension (it_ref it) (it_items it) (it_end it)) (\<lambda>ys.
     andthen (torch_cat fw ys) (\<lambda>actuals.
     andthen (call_object fw (Model_predict model val_dataloader kwargs)) (\<lambda>predictions.
     andthen (tensor_sub fw actuals predictions) (\<lambda>difference.
     andthen (tensor_abs difference) (\<lambda>absolute.
     tensor_mean fw absolute))))))"

definition plot_prediction :: "framework \<Rightarrow> obj \<Rightarrow> obj \<Rightarrow> unit prog" where
  "plot_prediction fw model val_dataloader =
     andthen (call_object fw (Model_predict_raw model val_dataloader TRAINER_KWARGS))
       (\<lambda>result.
     andthen (unpack2 result) (\<lambda>(raw_predictions, x).
     for_in (map int [0..<10]) (\<lambda>idx.
       andthen (call_obj fw (Model_plot_prediction model x raw_predictions idx True))
         (\<lambda>_. ret ()))))"

text \<open>\<open>pd.Timestamp("2020-01-01")\<close> as a day number.\<close>

definition timestamp_2020_01_01 :: int where
  "timestamp_2020_01_01 = 18262"

text \<open>A row of the frame with the columns \<open>static\<close> and \<open>date\<close> that \<open>main\<close> adds.\<close>

definition with_static_and_date :: "raw_row \<Rightarrow> int \<Rightarrow> row" where
  "with_static_and_date r d =
     \<lparr>series = series r, time_idx = time_idx r, value_col = value_col r,
      static = ''2'', date = d\<rparr>"

definition main :: "framework \<Rightarrow> unit prog" where
  "main fw =
     andthen (call_frame fw (Generate_ar_data 10 400 100)) (\<lambda>generated.
     andthen (to_timedelta (map time_idx generated) ''D'') (\<lambda>deltas.
     andthen (timestamp_add timestamp_2020_01_01 deltas) (\<lambda>dates.
     let data = map2 with_static_and_date generated dates in
     andthen (call_series fw (Series_sample (map series data) 20)) (\<lambda>validation.
     let max_encoder_length = 60; max_prediction_length = 20 in
     andthen (call_obj fw NaNLabelEncoder) (\<lambda>encoder.
     andthen (call_obj fw (Encoder_fit encoder (map series data))) (\<lambda>fitted.
     andthen (call_obj fw (GroupNormalizer [''series''])) (\<lambda>normalizer.
     andthen (call_obj fw (TimeSeriesDataSet
         (filter (\<lambda>x. series x \<notin> set validation) data)
         \<lparr>kw_time_idx = ''time_idx'',
          kw_target = ''value'',
          kw_categorical_encoders = [(''series'', fitted)],
          kw_group_ids = [''series''],
          kw_static_categoricals = [''static''],
          kw_min_encoder_length = max_encoder_length,
          kw_max_encoder_length = max_encoder_length,
          kw_min_prediction_length = max_prediction_length,
          kw_max_prediction_length = max_prediction_length,
          kw_time_varying_unknown_reals = [''value''],
          kw_time_varying_known_reals = [''time_idx''],
          kw_target_normalizer = normalizer,
          kw_add_relative_time_idx = False,
          kw_add_target_scales = True,
          kw_randomize_length = PyNone\<rparr>)) (\<lambda>training.
     andthen (call_obj fw (From_dataset training
         (filter (\<lambda>x. series x \<in> set validation) data) True)) (\<lambda>validation.
     let batch_size = 64 in
     andthen (call_obj fw (To_dataloader training True batch_size 0)) (\<lambda>train_dataloader.
     andthen (call_obj fw (To_dataloader validation False batch_size 0)) (\<lambda>val_dataloader.
     andthen (call_obj fw (EarlyStopping
         \<lparr>kw_monitor = ''val_loss'', kw_min_delta = 1 / 10000, kw_patience = 5,
          kw_verbose = False, kw_mode = ''min''\<rparr>)) (\<lambda>early_stop_callback.
     andthen (call_obj fw LearningRateMonitor) (\<lambda>lr_logger.
     andthen (call_obj fw (Trainer
         \<lparr>kw_max_epochs = 10, kw_accelerator = ''cpu'', kw_gradient_clip_val = 1 / 10,
          kw_limit_train_batches = PyInt 30, kw_limit_val_batches = PyInt 3,
          kw_callbacks = [lr_logger, early_stop_callback]\<rparr>)) (\<lambda>trainer.
     andthen (call_obj fw NormalDistributionLoss) (\<lambda>loss.
     andthen (call_obj fw (DeepAR_from_dataset training
         \<lparr>kw_learning_rate = 1 / 10, kw_hidden_size = 32, kw_dropout = 1 / 10,
          kw_loss = loss, kw_log_interval = 10, kw_log_val_interval = 3\<rparr>)) (\<lambda>deepar.
     andthen (call_int fw (Model_size deepar)) (\<lambda>n.
     andthen (print ''Number of parameters in network: ''
         (Show_fixed1 (real_of_int n / 1000) ''k'')) (\<lambda>_.
     andthen (fit_model fw trainer deepar train_dataloader val_dataloader) (\<lambda>_.
     andthen (eval_predictions fw deepar val_dataloader TRAINER_KWARGS) (\<lambda>mae.
     print ''Mean absolute error of model: '' (Show_tensor mae)))))))))))))))))))))"

text \<open>Running the file: the definitions above, then the guard on \<open>__name__\<close>.\<close>

definition ar_module :: "framework \<Rightarrow> string \<Rightarrow> unit prog" where
  "ar_module fw name = (if name = ''__main__'' then main fw else ret ())"

subsection \<open>Observing runs\<close>

text \<open>The events a program adds to the trace of the world it starts in.\<close>

definition emitted :: "'a prog \<Rightarrow> world \<Rightarrow> event list" where
  "emitted m w = drop (length (trace w)) (trace (snd (m w)))"

definition returned :: "event \<Rightarrow> bool" where
  "returned ev = (\<not> isl (snd ev))"

definition calls_made :: "event list \<Rightarrow> call list" where
  "calls_made t = map fst t"

text \<open>The kind of a call: which API is called, without the arguments that are data of the
  run. The arguments that are literals of the script and matter below are kept: the
  \<open>num_workers\<close> of a dataloader, the thread count, the index of a plot, the text of a
  \<open>print\<close>.\<close>

datatype kind =
    K_generate_ar_data | K_to_timedelta | K_timestamp_add
  | K_sample | K_encoder | K_encoder_fit | K_group_normalizer
  | K_dataset | K_from_dataset | K_to_dataloader int
  | K_early_stopping | K_lr_monitor | K_trainer | K_loss | K_deepar | K_size
  | K_print string | K_set_num_threads int | K_fit
  | K_iter | K_next | K_cat | K_predict | K_sub | K_abs | K_mean
  | K_predict_raw | K_plot_prediction int
  | K_tuner | K_lr_find | K_suggestion | K_result_plot | K_fig_show

fun kind_of :: "call \<Rightarrow> kind" where
  "kind_of (Generate_ar_data _ _ _) = K_generate_ar_data"
| "kind_of (To_timedelta _ _) = K_to_timedelta"
| "kind_of (Timestamp_add _ _) = K_timestamp_add"
| "kind_of (Series_sample _ _) = K_sample"
| "kind_of NaNLabelEncoder = K_encoder"
| "kind_of (Encoder_fit _ _) = K_encoder_fit"
| "kind_of (GroupNormalizer _) = K_group_normalizer"
| "kind_of (TimeSeriesDataSet _ _) = K_dataset"
| "kind_of (From_dataset _ _ _) = K_from_dataset"
| "kind_of (To_dataloader _ _ _ num_workers) = K_to_dataloader num_workers"
| "kind_of (EarlyStopping _) = K_early_stopping"
| "kind_of LearningRateMonitor = K_lr_monitor"
| "kind_of (Trainer _) = K_trainer"
| "kind_of NormalDistributionLoss = K_loss"
| "kind_of (DeepAR_from_dataset _ _) = K_deepar"
| "kind_of (Model_size _) = K_size"
| "kind_of (Print s _) = K_print s"
| "kind_of (Set_num_threads n) = K_set_num_threads n"
| "kind_of (Trainer_fit _ _ _ _) = K_fit"
| "kind_of (Iter_dataloader _) = K_iter"
| "kind_of (Next _) = K_next"
| "kind_of (Torch_cat _) = K_cat"
| "kind_of (Model_predict _ _ _) = K_predict"
| "kind_of (Tensor_sub _ _) = K_sub"
| "kind_of (Tensor_abs _) = K_abs"
| "kind_of (Tensor_mean _) = K_mean"
| "kind_of (Model_predict_raw _ _ _) = K_predict_raw"
| "kind_of (Model_plot_prediction _ _ _ idx _) = K_plot_prediction idx"
| "kind_of (Tuner _) = K_tuner"
| "kind_of (Lr_find _ _ _ _ _ _) = K_lr_find"
| "kind_of (Suggestion _) = K_suggestion"
| "kind_of (Result_plot _ _ _) = K_result_plot"
| "kind_of (Fig_show _) = K_fig_show"

definition kinds :: "event list \<Rightarrow> kind list" where
  "kinds t = map (\<lambda>ev. kind_of (fst ev)) t"

text \<open>
  \<open>performs m F\<close>, for a family \<open>F\<close> of lists of kinds: from every world, \<open>m\<close> only appends
  to the trace; no call but the last one made has raised; the calls made are an initial
  part of a list of the family; when \<open>m\<close> returns they are a list of the family and each of
  them returned; when \<open>m\<close> raises \<open>e\<close> and its last call raised, that call raised \<open>e\<close>. The
  family is indexed by the number of batches that an iteration delivers; a function without
  such a loop has a constant family.
\<close>

definition performs :: "'a prog \<Rightarrow> (nat \<Rightarrow> kind list) \<Rightarrow> bool" where
  "performs m F \<longleftrightarrow>
     (\<forall>w. \<exists>t. trace (snd (m w)) = trace w @ t \<and>
        list_all returned (butlast t) \<and>
        (\<exists>n. prefix (kinds t) (F n)) \<and>
        (case fst (m w) of
           Inr x \<Rightarrow> (\<exists>n. kinds t = F n) \<and> list_all returned t
         | Inl e \<Rightarrow> t = [] \<or> returned (last t) \<or> snd (last t) = Inl e))"


text \<open>\<open>runs m R\<close>: from every world, \<open>m\<close> only appends to the trace, and what it appends
  and its result satisfy \<open>R\<close>.\<close>

definition runs :: "'a prog \<Rightarrow> (event list \<Rightarrow> exn + 'a \<Rightarrow> bool) \<Rightarrow> bool" where
  "runs m R \<longleftrightarrow> (\<forall>w. \<exists>t. trace (snd (m w)) = trace w @ t \<and> R t (fst (m w)))"

text \<open>The comprehension of \<open>eval_predictions\<close> in one piece: the list it builds, or the
  exception that ends it, and the calls of \<open>next\<close> it makes.\<close>

fun collected :: "pyobject list \<Rightarrow> exn option \<Rightarrow> exn + pyobject list" where
  "collected [] ending = (case ending of None \<Rightarrow> Inr [] | Some e \<Rightarrow> Inl e)"
| "collected (b # bs) ending =
     (case batch_target b of
        Inl e \<Rightarrow> Inl e
      | Inr y \<Rightarrow> (case collected bs ending of Inl e \<Rightarrow> Inl e | Inr ys \<Rightarrow> Inr (y # ys)))"

fun steps :: "obj \<Rightarrow> pyobject list \<Rightarrow> exn option \<Rightarrow> event list" where
  "steps it [] ending =
     [(Next it, case ending of None \<Rightarrow> Inr (R_next None) | Some e \<Rightarrow> Inl e)]"
| "steps it (b # bs) ending =
     (Next it, Inr (R_next (Some b))) #
     (case batch_target b of Inl e \<Rightarrow> [] | Inr y \<Rightarrow> steps it bs ending)"

subsection \<open>The calls of each function, in source order\<close>

definition fine_optimal_lr_calls :: "kind list" where
  "fine_optimal_lr_calls =
     [K_tuner, K_lr_find, K_suggestion, K_print ''suggested learning rate: '',
      K_result_plot, K_fig_show, K_suggestion]"

definition fit_model_calls :: "kind list" where
  "fit_model_calls = [K_set_num_threads 10, K_fit]"

text \<open>\<open>eval_predictions\<close> on a dataloader that delivers \<open>n\<close> batches: \<open>n\<close> calls of \<open>next\<close> that
  deliver a batch and the one that ends the iteration.\<close>

definition eval_predictions_calls :: "nat \<Rightarrow> kind list" where
  "eval_predictions_calls =
     (\<lambda>n. K_iter # replicate n K_next @ [K_next, K_cat, K_predict, K_sub, K_abs, K_mean])"

definition plot_prediction_calls :: "kind list" where
  "plot_prediction_calls =
     [K_predict_raw,
      K_plot_prediction 0, K_plot_prediction 1, K_plot_prediction 2, K_plot_prediction 3,
      K_plot_prediction 4, K_plot_prediction 5, K_plot_prediction 6, K_plot_prediction 7,
      K_plot_prediction 8, K_plot_prediction 9]"

definition main_calls :: "nat \<Rightarrow> kind list" where
  "main_calls =
     (\<lambda>n. [K_generate_ar_data, K_to_timedelta, K_timestamp_add, K_sample,
      K_encoder, K_encoder_fit, K_group_normalizer,
      K_dataset, K_from_dataset, K_to_dataloader 0, K_to_dataloader 0,
      K_early_stopping, K_lr_monitor, K_trainer, K_loss, K_deepar, K_size,
      K_print ''Number of parameters in network: '',
      K_set_num_threads 10, K_fit,
      K_iter] @ replicate n K_next @ [K_next, K_cat, K_predict, K_sub, K_abs, K_mean,
      K_print ''Mean absolute error of model: ''])"





fun is_set_num_threads :: "kind \<Rightarrow> bool" where
  "is_set_num_threads (K_set_num_threads _) = True"
| "is_set_num_threads _ = False"

fun is_to_dataloader :: "kind \<Rightarrow> bool" where
  "is_to_dataloader (K_to_dataloader _) = True"
| "is_to_dataloader _ = False"


fun is_plot_prediction :: "kind \<Rightarrow> bool" where
  "is_plot_prediction (K_plot_prediction _) = True"
| "is_plot_prediction _ = False"

fun is_print :: "kind \<Rightarrow> bool" where
  "is_print (K_print _) = True"
| "is_print _ = False"

subsection \<open>What a trace says about the rows of the frame\<close>

text \<open>The frame that \<open>generate_ar_data\<close> answered, the dates that pandas computed for it, the
  series that were sampled, and the rows that the two dataset constructions were given, all
  read off the trace.\<close>

fun frame_of :: "event \<Rightarrow> raw_row list" where
  "frame_of (Generate_ar_data _ _ _, Inr (R_frame g)) = g"
| "frame_of _ = []"

fun dates_of :: "event \<Rightarrow> int list" where
  "dates_of (Timestamp_add _ _, Inr (R_series ds)) = ds"
| "dates_of _ = []"

fun sample_of :: "event \<Rightarrow> int list" where
  "sample_of (Series_sample _ _, Inr (R_series v)) = v"
| "sample_of _ = []"

fun training_of :: "event \<Rightarrow> row list list" where
  "training_of (TimeSeriesDataSet rows _, _) = [rows]"
| "training_of _ = []"

fun validation_of :: "event \<Rightarrow> row list list" where
  "validation_of (From_dataset _ rows _, _) = [rows]"
| "validation_of _ = []"

definition generated_frame :: "event list \<Rightarrow> row list" where
  "generated_frame t =
     map2 with_static_and_date (concat (map frame_of t)) (concat (map dates_of t))"

definition sampled_series :: "event list \<Rightarrow> int list" where
  "sampled_series t = concat (map sample_of t)"

definition training_rows :: "event list \<Rightarrow> row list list" where
  "training_rows t = concat (map training_of t)"

definition validation_rows :: "event list \<Rightarrow> row list list" where
  "validation_rows t = concat (map validation_of t)"

text \<open>An event after the sampling is in order when it is not a second generation or
  sampling and, if it constructs a dataset, is given the rows selected by the sample.\<close>

fun rows_selected :: "row list \<Rightarrow> int list \<Rightarrow> event \<Rightarrow> bool" where
  "rows_selected d v (TimeSeriesDataSet rows _, _) = (rows = filter (\<lambda>x. series x \<notin> set v) d)"
| "rows_selected d v (From_dataset _ rows _, _) = (rows = filter (\<lambda>x. series x \<in> set v) d)"
| "rows_selected d v (Generate_ar_data _ _ _, _) = False"
| "rows_selected d v (Timestamp_add _ _, _) = False"
| "rows_selected d v (Series_sample _ _, _) = False"
| "rows_selected d v _ = True"

subsection \<open>The mean absolute error\<close>

definition mean_absolute_error :: "real list \<Rightarrow> real list \<Rightarrow> real" where
  "mean_absolute_error actual predicted =
     (\<Sum>i<length actual. \<bar>actual ! i - predicted ! i\<bar>) / real (length actual)"

text \<open>The target tensors of a list of batches \<open>(x, (y, weight))\<close>.\<close>

fun target_tensor :: "pyobject \<Rightarrow> tensor option" where
  "target_tensor b = (case batch_target b of Inl e \<Rightarrow> None | Inr y \<Rightarrow> tensor_of y)"

definition targets :: "pyobject list \<Rightarrow> tensor list" where
  "targets batches = List.map_filter target_tensor batches"

subsection \<open>Concrete frameworks\<close>

text \<open>A framework whose calls all return: three rows of two series, the series \<open>1\<close>
  sampled for validation, one batch of one window of two steps, a prediction for it, and
  for the raw prediction a pair.\<close>

fun demo_object :: "call \<Rightarrow> pyobject" where
  "demo_object (Model_predict_raw _ _ _) = Sequence [Opaque 3, Opaque 4]"
| "demo_object _ = Tensor_of \<lparr>shape = [1, 2], elems = [2, 4]\<rparr>"

definition demo_batch :: pyobject where
  "demo_batch = Sequence [Opaque 0, Sequence [Tensor_of \<lparr>shape = [1, 2], elems = [1, 2]\<rparr>,
                                              Opaque 0]]"

definition demo_framework :: framework where
  "demo_framework =
     \<lparr>ask_none = (\<lambda>_ _. Inr ()),
      ask_obj = (\<lambda>_ _. Inr 7),
      ask_val = (\<lambda>_ _. Inr (PyFloat (1 / 100))),
      ask_int = (\<lambda>_ _. Inr 21500),
      ask_frame = (\<lambda>_ _. Inr [\<lparr>series = 0, time_idx = 0, value_col = 1\<rparr>,
                              \<lparr>series = 1, time_idx = 0, value_col = 2\<rparr>,
                              \<lparr>series = 0, time_idx = 1, value_col = 3\<rparr>]),
      ask_series = (\<lambda>_ _. Inr [1]),
      ask_iter = (\<lambda>_ _. Inr \<lparr>it_ref = 5, it_items = [demo_batch], it_end = None\<rparr>),
      ask_tensor = (\<lambda>_ _. Inr \<lparr>shape = [], elems = [0]\<rparr>),
      ask_object = (\<lambda>_ c. Inr (demo_object c))\<rparr>"



text \<open>The same framework with a validation dataloader that delivers no batch, and a
  \<open>torch.cat\<close> that raises for the empty list, as torch does.\<close>

definition no_batches_framework :: framework where
  "no_batches_framework =
     demo_framework\<lparr>ask_iter := (\<lambda>_ _. Inr \<lparr>it_ref = 5, it_items = [], it_end = None\<rparr>),
                    ask_tensor := (\<lambda>_ _. Inl (Exn ''RuntimeError''))\<rparr>"

text \<open>The same framework with a \<open>predict\<close> that answers, for the raw mode with \<open>return_x\<close>, a
  named tuple of five fields (output, x, index, decoder lengths, y).\<close>

definition prediction_tuple_framework :: framework where
  "prediction_tuple_framework =
     demo_framework\<lparr>ask_object :=
       (\<lambda>_ _. Inr (Sequence [Opaque 3, Opaque 4, Opaque 5, Opaque 6, Opaque 7]))\<rparr>"

text \<open>The same framework with a \<open>model.plot_prediction\<close> that raises for the window \<open>3\<close>.\<close>

fun plot_raises :: "call \<Rightarrow> exn + obj" where
  "plot_raises (Model_plot_prediction _ _ _ idx _) =
     (if idx = 3 then Inl (Exn ''IndexError'') else Inr 7)"
| "plot_raises _ = Inr 7"

definition three_windows_framework :: framework where
  "three_windows_framework = demo_framework\<lparr>ask_obj := (\<lambda>_ c. plot_raises c)\<rparr>"



text \<open>The same framework with a frame whose \<open>time_idx\<close> is beyond the time spans of pandas.\<close>

definition far_future_framework :: framework where
  "far_future_framework =
     demo_framework\<lparr>ask_frame :=
       (\<lambda>_ _. Inr [\<lparr>series = 0, time_idx = 2 ^ 40, value_col = 1\<rparr>])\<rparr>"

definition empty_world :: world where
  "empty_world = \<lparr>trace = [], store = Map.empty\<rparr>"

section \<open>Reasoning about runs\<close>

lemmas calls = call_none_def call_obj_def call_val_def call_int_def call_frame_def
  call_series_def call_iter_def call_tensor_def call_object_def print_def
  torch_cat_def tensor_sub_def tensor_abs_def tensor_mean_def
  to_timedelta_def timestamp_add_def next_item_def

subsection \<open>Running a program step by step\<close>

lemma andthen_invoke:
  "andthen (invoke ask rp c) f w =
     (case ask w c of
        Inl e \<Rightarrow> (Inl e, w\<lparr>trace := trace w @ [(c, Inl e)]\<rparr>)
      | Inr x \<Rightarrow> f x (w\<lparr>trace := trace w @ [(c, Inr (rp x))]\<rparr>))"
  by (simp add: andthen_def invoke_def Let_def split: sum.splits)

lemma invoke_run:
  "invoke ask rp c w =
     (case ask w c of
        Inl e \<Rightarrow> (Inl e, w\<lparr>trace := trace w @ [(c, Inl e)]\<rparr>)
      | Inr x \<Rightarrow> (Inr x, w\<lparr>trace := trace w @ [(c, Inr (rp x))]\<rparr>))"
  by (simp add: invoke_def Let_def split: sum.splits)

lemma andthen_setattr:
  "andthen (setattr l v) f w = f () (w\<lparr>store := (store w)(l \<mapsto> v)\<rparr>)"
  by (simp add: andthen_def setattr_def)

lemma andthen_ret: "andthen (ret x) f w = f x w"
  by (simp add: andthen_def ret_def)

lemma andthen_lift:
  "andthen (lift r) f w = (case r of Inl e \<Rightarrow> (Inl e, w) | Inr x \<Rightarrow> f x w)"
  by (simp add: andthen_def lift_def split: sum.splits)

lemma andthen_assoc: "andthen (andthen m f) g = andthen m (\<lambda>x. andthen (f x) g)"
  by (auto simp: andthen_def fun_eq_iff split: prod.splits sum.splits)

subsection \<open>The calls a program performs\<close>

lemma performs_ret: "performs (ret x) (\<lambda>_. [])"
  by (simp add: performs_def ret_def kinds_def)

lemma performs_setattr: "performs (setattr l v) (\<lambda>_. [])"
  by (simp add: performs_def setattr_def kinds_def)

lemma performs_invoke: "performs (invoke ask rp c) (\<lambda>_. [kind_of c])"
  by (auto simp: performs_def invoke_def Let_def kinds_def returned_def split: sum.splits)

lemma performs_andthen:
  assumes m: "performs m F" and f: "\<And>x. performs (f x) G"
    and h: "\<And>i j. \<exists>n. H n = F i @ G j"
  shows "performs (andthen m f) H"
  unfolding performs_def
proof
  fix w
  from m obtain t where t: "trace (snd (m w)) = trace w @ t"
    and tb: "list_all returned (butlast t)"
    and tp: "\<exists>n. prefix (kinds t) (F n)"
    and c: "case fst (m w) of
           Inr x \<Rightarrow> (\<exists>n. kinds t = F n) \<and> list_all returned t
         | Inl e \<Rightarrow> t = [] \<or> returned (last t) \<or> snd (last t) = Inl e"
    unfolding performs_def by blast
  show "\<exists>t. trace (snd (andthen m f w)) = trace w @ t \<and>
        list_all returned (butlast t) \<and>
        (\<exists>n. prefix (kinds t) (H n)) \<and>
        (case fst (andthen m f w) of
           Inr x \<Rightarrow> (\<exists>n. kinds t = H n) \<and> list_all returned t
         | Inl e \<Rightarrow> t = [] \<or> returned (last t) \<or> snd (last t) = Inl e)"
  proof (cases "m w")
    case (Pair r w1)
    show ?thesis
    proof (cases r)
      case (Inl e)
      from tp obtain i where "prefix (kinds t) (F i)" by blast
      moreover from h[of i 0] obtain n where "H n = F i @ G 0" by blast
      ultimately have "prefix (kinds t) (H n)" by (auto simp: prefix_def)
      then have "\<exists>n. prefix (kinds t) (H n)" by blast
      with Pair Inl t tb c show ?thesis
        by (auto simp: andthen_def intro!: exI[of _ t])
    next
      case (Inr x)
      from f[of x] obtain u where u: "trace (snd (f x w1)) = trace w1 @ u"
        and ub: "list_all returned (butlast u)"
        and up: "\<exists>n. prefix (kinds u) (G n)"
        and d: "case fst (f x w1) of
           Inr y \<Rightarrow> (\<exists>n. kinds u = G n) \<and> list_all returned u
         | Inl e \<Rightarrow> u = [] \<or> returned (last u) \<or> snd (last u) = Inl e"
        unfolding performs_def by blast
      from Pair Inr t c obtain i where k: "kinds t = F i" "list_all returned t"
          "trace w1 = trace w @ t"
        by auto
      from up obtain j where j: "prefix (kinds u) (G j)" by blast
      from h[of i j] obtain n where n: "H n = F i @ G j" by blast
      have r: "andthen m f w = f x w1"
        using Pair Inr by (simp add: andthen_def)
      have 1: "trace (snd (andthen m f w)) = trace w @ (t @ u)"
        using r u k by simp
      have 2: "list_all returned (butlast (t @ u))"
        using k(2) ub tb by (simp add: butlast_append)
      have "prefix (kinds (t @ u)) (H n)"
        using j k(1) n by (simp add: kinds_def)
      then have 3: "\<exists>n. prefix (kinds (t @ u)) (H n)" by blast
      have 4: "case fst (andthen m f w) of
           Inr x \<Rightarrow> (\<exists>n. kinds (t @ u) = H n) \<and> list_all returned (t @ u)
         | Inl e \<Rightarrow> t @ u = [] \<or> returned (last (t @ u)) \<or> snd (last (t @ u)) = Inl e"
      proof (cases "fst (f x w1)")
        case (Inr y)
        with d obtain j' where "kinds u = G j'" and ur: "list_all returned u" by auto
        moreover from h[of i j'] obtain n' where "H n' = F i @ G j'" by blast
        ultimately have "kinds (t @ u) = H n'"
          using k(1) by (simp add: kinds_def)
        then have "\<exists>n. kinds (t @ u) = H n" by blast
        with Inr r ur k(2) show ?thesis by simp
      next
        case (Inl e)
        show ?thesis
        proof (cases "u = []")
          case True
          have "t = [] \<or> returned (last t)"
            using k(2) by (cases t rule: rev_cases) simp_all
          with Inl r True show ?thesis by auto
        next
          case False
          with Inl r d show ?thesis by auto
        qed
      qed
      from 1 2 3 4 show ?thesis by blast
    qed
  qed
qed

lemma performs_then:
  "kind_of c = k \<Longrightarrow> (\<And>x. performs (f x) G) \<Longrightarrow>
     performs (andthen (invoke ask rp c) f) (\<lambda>n. k # G n)"
  by (rule performs_andthen[OF performs_invoke, of f G]) auto

lemma performs_last: "kind_of c = k \<Longrightarrow> performs (invoke ask rp c) (\<lambda>_. [k])"
  using performs_invoke[of ask rp c] by simp

lemma performs_fixed_then:
  "performs m (\<lambda>_. ks) \<Longrightarrow> (\<And>x. performs (f x) G) \<Longrightarrow>
     performs (andthen m f) (\<lambda>n. ks @ G n)"
  by (rule performs_andthen[of m "\<lambda>_. ks" f G]) auto

lemma performs_then_fixed:
  "performs m F \<Longrightarrow> (\<And>x. performs (f x) (\<lambda>_. ks)) \<Longrightarrow>
     performs (andthen m f) (\<lambda>n. F n @ ks)"
  by (rule performs_andthen[of m F f "\<lambda>_. ks"]) auto

lemma performs_script_then:
  "performs m (\<lambda>_. []) \<Longrightarrow> (\<And>x. performs (f x) G) \<Longrightarrow> performs (andthen m f) G"
  by (rule performs_andthen[of m "\<lambda>_. []" f G]) auto

lemma performs_then_ret:
  "performs m F \<Longrightarrow> performs (andthen m (\<lambda>x. ret (g x))) F"
  by (rule performs_andthen[of m F _ "\<lambda>_. []"]) (auto intro: performs_ret)

lemma performs_reindex: "performs m (\<lambda>n. F (g n)) \<Longrightarrow> performs m F"
  unfolding performs_def by (fastforce split: sum.splits)

lemma performs_case_prod:
  "(\<And>a b. performs (g a b) F) \<Longrightarrow> performs (case_prod g p) F"
  by (cases p) simp

lemma performs_setattr_then:
  "performs (f ()) G \<Longrightarrow> performs (andthen (setattr l v) f) G"
  by (rule performs_script_then[OF performs_setattr]) simp

lemma performs_set_get: "performs (andthen (setattr l v) (\<lambda>_. getattr l)) (\<lambda>_. [])"
  by (simp add: performs_def andthen_def setattr_def getattr_def kinds_def)

lemma performs_lift: "performs (lift r) (\<lambda>_. [])"
  by (cases r) (simp_all add: performs_def lift_def kinds_def)

lemma performs_unpack2: "performs (unpack2 v) (\<lambda>_. [])"
  by (simp add: unpack2_def performs_lift)

lemma performs_unpack_batch: "performs (unpack_batch b) (\<lambda>_. [])"
  by (simp add: unpack_batch_def performs_lift)

lemma performs_for_in:
  assumes "\<And>x. performs (body x) (\<lambda>_. [k x])"
  shows "performs (for_in xs body) (\<lambda>_. map k xs)"
proof (induction xs)
  case Nil
  show ?case by (simp add: performs_ret)
next
  case (Cons x xs)
  show ?case
    using performs_fixed_then[OF assms[of x], of "\<lambda>_. for_in xs body" "\<lambda>_. map k xs"] Cons
    by simp
qed

lemma performs_comprehension:
  "performs (comprehension it items ending) (\<lambda>_. replicate (Suc (length items)) K_next)"
proof (induction items)
  case Nil
  have "performs (comprehension it [] ending) (\<lambda>_. K_next # [])"
    unfolding comprehension.simps next_item_def
    by (intro performs_then performs_ret) simp
  then show ?case by simp
next
  case (Cons b bs)
  have "performs (comprehension it (b # bs) ending)
          (\<lambda>_. K_next # replicate (Suc (length bs)) K_next)"
    unfolding comprehension.simps next_item_def
    by (intro performs_then performs_script_then performs_unpack_batch performs_then_ret
        Cons.IH) simp
  then show ?case by simp
qed

text \<open>What \<open>performs\<close> says about the events a run emits.\<close>

lemma performs_emitted:
  assumes "performs m F"
  shows "trace (snd (m w)) = trace w @ emitted m w"
    and "\<exists>n. prefix (kinds (emitted m w)) (F n)"
    and "fst (m w) = Inr x \<Longrightarrow> \<exists>n. kinds (emitted m w) = F n"
    and "fst (m w) = Inr x \<Longrightarrow> list_all returned (emitted m w)"
    and "emitted m w \<noteq> [] \<Longrightarrow> snd (last (emitted m w)) = Inl e \<Longrightarrow> fst (m w) = Inl e"
    and "list_all returned (butlast (emitted m w))"
proof -
  from assms obtain t where t: "trace (snd (m w)) = trace w @ t"
    and tb: "list_all returned (butlast t)"
    and tp: "\<exists>n. prefix (kinds t) (F n)"
    and c: "case fst (m w) of
           Inr x \<Rightarrow> (\<exists>n. kinds t = F n) \<and> list_all returned t
         | Inl e \<Rightarrow> t = [] \<or> returned (last t) \<or> snd (last t) = Inl e"
    unfolding performs_def by blast
  have e: "emitted m w = t"
    using t by (simp add: emitted_def)
  show "trace (snd (m w)) = trace w @ emitted m w"
    using t e by simp
  show "\<exists>n. prefix (kinds (emitted m w)) (F n)"
    using tp e by simp
  show "fst (m w) = Inr x \<Longrightarrow> \<exists>n. kinds (emitted m w) = F n"
    using c e by simp
  show "fst (m w) = Inr x \<Longrightarrow> list_all returned (emitted m w)"
    using c e by simp
  show "list_all returned (butlast (emitted m w))"
    using tb e by simp
  show "fst (m w) = Inl e" if n: "emitted m w \<noteq> []" and l: "snd (last (emitted m w)) = Inl e"
  proof (cases "fst (m w)")
    case (Inl e')
    with c e n l show ?thesis by (auto simp: returned_def)
  next
    case (Inr y)
    with c e have "list_all returned t" by simp
    with n e have "returned (last t)" by (simp add: list_all_iff)
    with l e show ?thesis by (simp add: returned_def)
  qed
qed


subsection \<open>The four functions and \<open>main\<close>\<close>

lemma performs_fine_optimal_lr:
  "performs (fine_optimal_lr fw trainer model train_dataloader val_dataloader)
     (\<lambda>_. fine_optimal_lr_calls)"
  unfolding fine_optimal_lr_def fine_optimal_lr_calls_def calls
  apply (rule performs_setattr_then)+
  apply (intro performs_then)
         apply simp_all
  apply (rule performs_set_get)
  done

lemma performs_fit_model:
  "performs (fit_model fw trainer model train_loader val_dataloader) (\<lambda>_. fit_model_calls)"
  unfolding fit_model_def fit_model_calls_def calls
  by (intro performs_then performs_last) simp_all

lemma performs_eval_predictions:
  "performs (eval_predictions fw model val_dataloader kwargs) eval_predictions_calls"
  unfolding eval_predictions_def eval_predictions_calls_def calls
proof (rule performs_then)
  fix it :: iterator
  let ?rest = "\<lambda>ys. andthen
       (invoke (\<lambda>w c. if length (List.map_filter tensor_of ys) = length ys \<and>
                         catenable (List.map_filter tensor_of ys)
                      then Inr (cat (List.map_filter tensor_of ys))
                      else ask_tensor fw w c) R_tensor (Torch_cat ys))
       (\<lambda>actuals. andthen
          (invoke (ask_object fw) R_object (Model_predict model val_dataloader kwargs))
          (\<lambda>predictions. andthen
             (invoke (\<lambda>w c. case tensor_of predictions of
                  None \<Rightarrow> ask_tensor fw w c
                | Some b \<Rightarrow>
                    if wellformed actuals \<and> wellformed b \<and> shape actuals = shape b
                    then Inr \<lparr>shape = shape actuals,
                              elems = map2 (\<lambda>x y. x - y) (elems actuals) (elems b)\<rparr>
                    else ask_tensor fw w c) R_tensor (Tensor_sub actuals predictions))
             (\<lambda>difference. andthen
                (invoke (\<lambda>w c. Inr \<lparr>shape = shape difference,
                                     elems = map abs (elems difference)\<rparr>)
                   R_tensor (Tensor_abs difference))
                (\<lambda>absolute.
                   invoke (\<lambda>w c. if elems absolute \<noteq> []
                        then Inr \<lparr>shape = [],
                                  elems = [sum_list (elems absolute)
                                             / real (length (elems absolute))]\<rparr>
                        else ask_tensor fw w c) R_tensor (Tensor_mean absolute)))))"
  have rest: "performs (?rest ys) (\<lambda>_. [K_cat, K_predict, K_sub, K_abs, K_mean])" for ys
    by (intro performs_then performs_last) simp_all
  have "performs (andthen (comprehension (it_ref it) (it_items it) (it_end it)) ?rest)
          (\<lambda>n. replicate (Suc (length (it_items it))) K_next
                @ [K_cat, K_predict, K_sub, K_abs, K_mean])"
    by (rule performs_fixed_then[OF performs_comprehension]) (rule rest)
  then have "performs (andthen (comprehension (it_ref it) (it_items it) (it_end it)) ?rest)
          (\<lambda>n. (\<lambda>n. replicate n K_next @ [K_next, K_cat, K_predict, K_sub, K_abs, K_mean])
                  (length (it_items it)))"
    by (simp add: replicate_app_Cons_same)
  then show "performs (andthen (comprehension (it_ref it) (it_items it) (it_end it)) ?rest)
          (\<lambda>n. replicate n K_next @ [K_next, K_cat, K_predict, K_sub, K_abs, K_mean])"
    by (rule performs_reindex)
qed simp

lemma ten_indices:
  "map K_plot_prediction (map int [0..<10]) =
     [K_plot_prediction 0, K_plot_prediction 1, K_plot_prediction 2, K_plot_prediction 3,
      K_plot_prediction 4, K_plot_prediction 5, K_plot_prediction 6, K_plot_prediction 7,
      K_plot_prediction 8, K_plot_prediction 9]"
  by (simp add: upt_rec)

lemma performs_plot_prediction:
  "performs (plot_prediction fw model val_dataloader) (\<lambda>_. plot_prediction_calls)"
  unfolding plot_prediction_def plot_prediction_calls_def calls
proof (intro performs_then performs_script_then performs_unpack2 performs_case_prod)
  fix raw x
  have "performs (for_in (map int [0..<10])
          (\<lambda>idx. andthen
             (invoke (ask_obj fw) R_obj (Model_plot_prediction model x raw idx True))
             (\<lambda>_. ret ())))
          (\<lambda>_. map K_plot_prediction (map int [0..<10]))"
    by (intro performs_for_in performs_then performs_ret) simp
  then show "performs (for_in (map int [0..<10])
          (\<lambda>idx. andthen
             (invoke (ask_obj fw) R_obj (Model_plot_prediction model x raw idx True))
             (\<lambda>_. ret ())))
          (\<lambda>_. [K_plot_prediction 0, K_plot_prediction 1, K_plot_prediction 2,
            K_plot_prediction 3, K_plot_prediction 4, K_plot_prediction 5, K_plot_prediction 6,
            K_plot_prediction 7, K_plot_prediction 8, K_plot_prediction 9])"
    by (simp only: ten_indices)
qed simp

lemma main_calls_split:
  "main_calls =
     (\<lambda>n. K_generate_ar_data # K_to_timedelta # K_timestamp_add # K_sample #
      K_encoder # K_encoder_fit # K_group_normalizer #
      K_dataset # K_from_dataset # K_to_dataloader 0 # K_to_dataloader 0 #
      K_early_stopping # K_lr_monitor # K_trainer # K_loss # K_deepar # K_size #
      K_print ''Number of parameters in network: '' #
      (fit_model_calls @ (eval_predictions_calls n @ [K_print ''Mean absolute error of model: ''])))"
  by (simp add: main_calls_def fit_model_calls_def eval_predictions_calls_def fun_eq_iff)

lemma performs_main: "performs (main fw) main_calls"
  unfolding main_def main_calls_split calls Let_def
  apply (intro performs_then performs_fixed_then[OF performs_fit_model]
      performs_then_fixed[OF performs_eval_predictions] performs_last)
                    apply simp_all
  done

subsection \<open>Runs against the concrete frameworks\<close>

lemmas demo_run = fit_model_def eval_predictions_def plot_prediction_def fine_optimal_lr_def
  calls andthen_assoc andthen_invoke invoke_run andthen_setattr andthen_ret
  getattr_def ret_def andthen_lift unpack_batch_def unpack2_def batch_target_def
  two_items_def demo_batch_def
  catenable_def cat_def wellformed_def max_days_def
  timestamp_2020_01_01_def with_static_and_date_def
  demo_framework_def empty_world_def TRAINER_KWARGS_def Let_def

lemma main_demo: "fst (main demo_framework empty_world) = Inr ()"
  by (simp add: main_def demo_run)

lemma fine_optimal_lr_demo:
  "fst (fine_optimal_lr demo_framework 1 2 3 4 empty_world) = Inr (PyFloat (1 / 100))"
  by (simp add: demo_run)



lemma plot_prediction_demo: "fst (plot_prediction demo_framework 2 4 empty_world) = Inr ()"
  by (simp add: demo_run upt_rec)

subsection \<open>Runs that return, and runs that emit\<close>

lemma filter_kinds_prefix:
  "prefix ks ks' \<Longrightarrow> filter P ks' = fs \<Longrightarrow> prefix (filter P ks) fs"
  by (auto simp: prefix_def)

lemma filter_kinds_none:
  "prefix ks ks' \<Longrightarrow> filter P ks' = [] \<Longrightarrow> filter P ks = []"
  by (auto simp: prefix_def)

lemma emits_first_call:
  assumes "\<And>x. performs (f x) G"
  shows "emitted (andthen (invoke ask rp c) f) w \<noteq> []"
proof (cases "ask w c")
  case (Inl e)
  then show ?thesis by (simp add: emitted_def andthen_invoke)
next
  case (Inr x)
  let ?w1 = "w\<lparr>trace := trace w @ [(c, Inr (rp x))]\<rparr>"
  from assms[of x] obtain t where "trace (snd (f x ?w1)) = trace ?w1 @ t"
    unfolding performs_def by blast
  then have "trace (snd (f x ?w1)) = trace w @ (c, Inr (rp x)) # t"
    by simp
  with Inr show ?thesis by (simp add: emitted_def andthen_invoke)
qed

lemma main_emits: "emitted (main fw) w \<noteq> []"
  unfolding main_def calls Let_def
  apply (rule emits_first_call[where G = "\<lambda>n. K_to_timedelta # K_timestamp_add # K_sample #
      K_encoder # K_encoder_fit # K_group_normalizer #
      K_dataset # K_from_dataset # K_to_dataloader 0 # K_to_dataloader 0 #
      K_early_stopping # K_lr_monitor # K_trainer # K_loss # K_deepar # K_size #
      K_print ''Number of parameters in network: '' #
      (fit_model_calls @ (eval_predictions_calls n @ [K_print ''Mean absolute error of model: '']))"])
  apply (intro performs_then performs_fixed_then[OF performs_fit_model]
      performs_then_fixed[OF performs_eval_predictions] performs_last)
                    apply simp_all
  done

lemma emitted_ret: "emitted (ret x) w = []"
  by (simp add: emitted_def ret_def)



lemma main_far_future:
  "fst (main far_future_framework empty_world) = Inl (Exn ''OutOfBoundsTimedelta'')"
  by (simp add: main_def demo_run far_future_framework_def)



subsection \<open>The comprehension in one piece\<close>

lemma comprehension_run:
  "comprehension it items ending w =
     (collected items ending, w\<lparr>trace := trace w @ steps it items ending\<rparr>)"
proof (induction items arbitrary: w)
  case Nil
  show ?case
    by (cases ending) (simp_all add: next_item_def andthen_invoke ret_def)
next
  case (Cons b bs)
  show ?case
    by (simp add: next_item_def andthen_def invoke_def Let_def unpack_batch_def lift_def Cons
        ret_def split: sum.splits)
qed

lemma andthen_comprehension:
  "andthen (comprehension it items ending) f w =
     (case collected items ending of
        Inl e \<Rightarrow> (Inl e, w\<lparr>trace := trace w @ steps it items ending\<rparr>)
      | Inr ys \<Rightarrow> f ys (w\<lparr>trace := trace w @ steps it items ending\<rparr>))"
  by (simp add: andthen_def comprehension_run split: sum.splits)


lemma runs_emitted: "runs m R \<Longrightarrow> R (emitted m w) (fst (m w))"
  unfolding runs_def emitted_def
  by (metis append_eq_conv_conj)

lemma runs_weaken: "runs m R \<Longrightarrow> (\<And>t r. R t r \<Longrightarrow> R' t r) \<Longrightarrow> runs m R'"
  unfolding runs_def by blast

lemma runs_ret: "runs (ret x) (\<lambda>t r. t = [] \<and> r = Inr x)"
  by (simp add: runs_def ret_def)

lemma runs_lift: "runs (lift a) (\<lambda>t r. t = [] \<and> a = r)"
  by (simp add: runs_def lift_def)

lemma runs_invoke: "runs (invoke ask rp c) (\<lambda>t r. t = [(c, map_sum id rp r)])"
  by (simp add: runs_def invoke_def Let_def)


lemma runs_andthen:
  assumes "runs m P" and "\<And>x. runs (f x) (Q x)"
  shows "runs (andthen m f)
           (\<lambda>t r. (\<exists>e. P t (Inl e) \<and> r = Inl e) \<or>
                  (\<exists>x t1 t2. t = t1 @ t2 \<and> P t1 (Inr x) \<and> Q x t2 r))"
  unfolding runs_def
proof
  fix w
  from assms(1) obtain t1 where t1: "trace (snd (m w)) = trace w @ t1" "P t1 (fst (m w))"
    unfolding runs_def by blast
  show "\<exists>t. trace (snd (andthen m f w)) = trace w @ t \<and>
           ((\<exists>e. P t (Inl e) \<and> fst (andthen m f w) = Inl e) \<or>
            (\<exists>x t1 t2. t = t1 @ t2 \<and> P t1 (Inr x) \<and> Q x t2 (fst (andthen m f w))))"
  proof (cases "m w")
    case (Pair r w1)
    show ?thesis
    proof (cases r)
      case (Inl e)
      with Pair t1 show ?thesis by (auto simp: andthen_def)
    next
      case (Inr x)
      have "\<exists>t2. trace (snd (f x w1)) = trace w1 @ t2 \<and> Q x t2 (fst (f x w1))"
        using assms(2)[of x] unfolding runs_def by blast
      then obtain t2 where "trace (snd (f x w1)) = trace w1 @ t2" "Q x t2 (fst (f x w1))"
        by blast
      with Pair Inr t1 show ?thesis by (auto simp: andthen_def)
    qed
  qed
qed

lemma runs_then:
  assumes "\<And>x. runs (f x) (Q x)"
  shows "runs (andthen (invoke ask rp c) f)
           (\<lambda>t r. (\<exists>e. t = [(c, Inl e)] \<and> r = Inl e) \<or>
                  (\<exists>x t'. t = (c, Inr (rp x)) # t' \<and> Q x t' r))"
  by (rule runs_weaken[OF runs_andthen[OF runs_invoke, of f Q ask rp c]]) (use assms in auto)

lemma runs_case_prod:
  "(\<And>a b. runs (g a b) (Q a b)) \<Longrightarrow> runs (case_prod g p) (case_prod Q p)"
  by (cases p) simp

lemma for_in_step:
  "for_in (x # xs) (\<lambda>i. andthen (invoke ask rp (c i)) (\<lambda>_. ret ())) =
     andthen (invoke ask rp (c x))
       (\<lambda>_. for_in xs (\<lambda>i. andthen (invoke ask rp (c i)) (\<lambda>_. ret ())))"
  by (auto simp: fun_eq_iff andthen_def ret_def split: prod.splits sum.splits)

lemma runs_for_in:
  "runs (for_in xs (\<lambda>i. andthen (invoke ask rp (c i)) (\<lambda>_. ret ())))
     (\<lambda>t r. (r = Inr () \<and> calls_made t = map c xs \<and> list_all returned t) \<or>
            (\<exists>e. r = Inl e \<and> t \<noteq> [] \<and> snd (last t) = Inl e))"
proof (induction xs)
  case Nil
  show ?case by (simp add: runs_def ret_def calls_made_def)
next
  case (Cons x xs)
  show ?case
    unfolding for_in_step
    by (rule runs_weaken[OF runs_then[OF Cons]]) (auto simp: calls_made_def returned_def)
qed

subsection \<open>The calls of returning runs, with their arguments\<close>



lemma plot_prediction_outcome:
  "(fst (plot_prediction fw model val_dataloader w) = Inr () \<longrightarrow>
      (\<exists>v raw x. two_items v = Inr (raw, x) \<and>
         hd (emitted (plot_prediction fw model val_dataloader) w)
           = (Model_predict_raw model val_dataloader TRAINER_KWARGS, Inr (R_object v)) \<and>
         calls_made (emitted (plot_prediction fw model val_dataloader) w)
           = Model_predict_raw model val_dataloader TRAINER_KWARGS #
             map (\<lambda>idx. Model_plot_prediction model x raw idx True) (map int [0..<10]))) \<and>
   (\<forall>e. fst (plot_prediction fw model val_dataloader w) = Inl e \<longrightarrow>
      snd (last (emitted (plot_prediction fw model val_dataloader) w)) = Inl e \<or>
      (\<exists>v. emitted (plot_prediction fw model val_dataloader) w
              = [(Model_predict_raw model val_dataloader TRAINER_KWARGS, Inr (R_object v))] \<and>
           two_items v = Inl e))"
proof -
  have "runs (plot_prediction fw model val_dataloader)
     (\<lambda>t r. (r = Inr () \<longrightarrow>
      (\<exists>v raw x. two_items v = Inr (raw, x) \<and>
         hd t = (Model_predict_raw model val_dataloader TRAINER_KWARGS, Inr (R_object v)) \<and>
         calls_made t = Model_predict_raw model val_dataloader TRAINER_KWARGS #
             map (\<lambda>idx. Model_plot_prediction model x raw idx True) (map int [0..<10]))) \<and>
      (\<forall>e. r = Inl e \<longrightarrow>
         snd (last t) = Inl e \<or>
         (\<exists>v. t = [(Model_predict_raw model val_dataloader TRAINER_KWARGS, Inr (R_object v))] \<and>
              two_items v = Inl e)))"
    unfolding plot_prediction_def calls unpack2_def
    apply (rule runs_weaken)
     apply (rule runs_then)
     apply (rule runs_andthen[OF runs_lift])
     apply (rule runs_case_prod)
     apply (rule runs_for_in)
    apply (auto simp: calls_made_def)
    done
  from runs_emitted[OF this, of w] show ?thesis by blast
qed


subsection \<open>More runs against concrete frameworks\<close>

lemma plot_prediction_tuple:
  "fst (plot_prediction prediction_tuple_framework 2 4 empty_world) = Inl (Exn ''ValueError'') \<and>
   kinds (emitted (plot_prediction prediction_tuple_framework 2 4) empty_world) = [K_predict_raw]"
  by (simp add: demo_run prediction_tuple_framework_def emitted_def kinds_def)

lemma plot_prediction_three_windows:
  "fst (plot_prediction three_windows_framework 2 4 empty_world) = Inl (Exn ''IndexError'') \<and>
   kinds (emitted (plot_prediction three_windows_framework 2 4) empty_world)
     = [K_predict_raw, K_plot_prediction 0, K_plot_prediction 1, K_plot_prediction 2,
        K_plot_prediction 3]"
  by (simp add: demo_run three_windows_framework_def emitted_def kinds_def upt_rec)




lemma eval_predictions_no_batches:
  "fst (eval_predictions no_batches_framework 2 4 TRAINER_KWARGS empty_world)
     = Inl (Exn ''RuntimeError'')"
  by (simp add: demo_run no_batches_framework_def)

section \<open>The claims\<close>

text \<open>
  C9. \<open>main\<close> is invoked exactly when the file is run as a program: under the name
  \<open>__main__\<close> running the file is running \<open>main\<close>; under any other name (an import) it
  returns at once, leaves the world as it was and makes no call at all, so no data is
  generated, nothing is trained and nothing is evaluated. A run of the file makes a call
  if and only if the name is \<open>__main__\<close>.
\<close>

theorem main_guard:
  "ar_module fw ''__main__'' = main fw \<and>
   (name \<noteq> ''__main__'' \<longrightarrow> ar_module fw name w = (Inr (), w)) \<and>
   (emitted (ar_module fw name) w \<noteq> [] \<longleftrightarrow> name = ''__main__'')"
  by (simp add: ar_module_def main_emits emitted_ret ret_def)

theorem main_guard_witness:
  "ar_module demo_framework ''ar'' empty_world = (Inr (), empty_world) \<and>
   emitted (ar_module demo_framework ''ar'') empty_world = [] \<and>
   emitted (ar_module demo_framework ''__main__'') empty_world \<noteq> []"
proof -
  have "ar_module demo_framework ''ar'' empty_world = (Inr (), empty_world) \<and>
        emitted (ar_module demo_framework ''ar'') empty_world = []"
    using main_guard[of demo_framework "''ar''" empty_world] by simp
  moreover have "emitted (ar_module demo_framework ''__main__'') empty_world \<noteq> []"
    using main_guard[of demo_framework "''__main__''" empty_world] by blast
  ultimately show ?thesis by blast
qed

text \<open>
  C8. The only thread configuration of the script is \<open>torch.set_num_threads(10)\<close>:
  \<open>fine_optimal_lr\<close>, \<open>eval_predictions\<close> and \<open>plot_prediction\<close> never set a thread
  count; \<open>fit_model\<close> sets it to 10 as its first call, before \<open>trainer.fit\<close>; \<open>main\<close> sets
  it at most once and exactly once, to 10, when it returns. Every dataloader \<open>main\<close>
  creates has \<open>num_workers = 0\<close>, and a returning run creates two.
\<close>

theorem thread_configuration:
  "filter is_set_num_threads
     (kinds (emitted (fine_optimal_lr fw trainer model train_dataloader val_dataloader) w)) = [] \<and>
   filter is_set_num_threads
     (kinds (emitted (eval_predictions fw model val_dataloader kwargs) w)) = [] \<and>
   filter is_set_num_threads
     (kinds (emitted (plot_prediction fw model val_dataloader) w)) = [] \<and>
   prefix (kinds (emitted (fit_model fw trainer model train_dataloader val_dataloader) w))
     [K_set_num_threads 10, K_fit] \<and>
   prefix (filter is_set_num_threads (kinds (emitted (main fw) w))) [K_set_num_threads 10] \<and>
   prefix (filter is_to_dataloader (kinds (emitted (main fw) w)))
     [K_to_dataloader 0, K_to_dataloader 0] \<and>
   (fst (main fw w) = Inr () \<longrightarrow>
      filter is_set_num_threads (kinds (emitted (main fw) w)) = [K_set_num_threads 10] \<and>
      filter is_to_dataloader (kinds (emitted (main fw) w))
        = [K_to_dataloader 0, K_to_dataloader 0])"
proof (intro conjI impI)
  from performs_emitted(2)[OF performs_fine_optimal_lr]
  have "prefix (kinds (emitted (fine_optimal_lr fw trainer model train_dataloader
          val_dataloader) w)) fine_optimal_lr_calls"
    by simp
  then show "filter is_set_num_threads
     (kinds (emitted (fine_optimal_lr fw trainer model train_dataloader val_dataloader) w)) = []"
    by (rule filter_kinds_none) (simp add: fine_optimal_lr_calls_def)
  from performs_emitted(2)[OF performs_eval_predictions]
  obtain n where "prefix (kinds (emitted (eval_predictions fw model val_dataloader kwargs) w))
      (eval_predictions_calls n)"
    by blast
  then show "filter is_set_num_threads
     (kinds (emitted (eval_predictions fw model val_dataloader kwargs) w)) = []"
    by (rule filter_kinds_none) (simp add: eval_predictions_calls_def)
  from performs_emitted(2)[OF performs_plot_prediction]
  have "prefix (kinds (emitted (plot_prediction fw model val_dataloader) w))
      plot_prediction_calls"
    by simp
  then show "filter is_set_num_threads
     (kinds (emitted (plot_prediction fw model val_dataloader) w)) = []"
    by (rule filter_kinds_none) (simp add: plot_prediction_calls_def)
  show "prefix (kinds (emitted (fit_model fw trainer model train_dataloader val_dataloader) w))
     [K_set_num_threads 10, K_fit]"
    using performs_emitted(2)[OF performs_fit_model, of fw trainer model train_dataloader
        val_dataloader w]
    by (simp add: fit_model_calls_def)
  from performs_emitted(2)[OF performs_main]
  obtain m where m: "prefix (kinds (emitted (main fw) w)) (main_calls m)"
    by blast
  show "prefix (filter is_set_num_threads (kinds (emitted (main fw) w))) [K_set_num_threads 10]"
    by (rule filter_kinds_prefix[OF m]) (simp add: main_calls_def)
  show "prefix (filter is_to_dataloader (kinds (emitted (main fw) w)))
     [K_to_dataloader 0, K_to_dataloader 0]"
    by (rule filter_kinds_prefix[OF m]) (simp add: main_calls_def)
  assume "fst (main fw w) = Inr ()"
  from performs_emitted(3)[OF performs_main this]
  obtain n where n: "kinds (emitted (main fw) w) = main_calls n"
    by blast
  show "filter is_set_num_threads (kinds (emitted (main fw) w)) = [K_set_num_threads 10]"
    by (simp add: n main_calls_def)
  show "filter is_to_dataloader (kinds (emitted (main fw) w))
        = [K_to_dataloader 0, K_to_dataloader 0]"
    by (simp add: n main_calls_def)
qed

theorem thread_configuration_witness:
  "fst (main demo_framework empty_world) = Inr () \<and>
   filter is_set_num_threads (kinds (emitted (main demo_framework) empty_world))
     = [K_set_num_threads 10] \<and>
   filter is_to_dataloader (kinds (emitted (main demo_framework) empty_world))
     = [K_to_dataloader 0, K_to_dataloader 0]"
  using thread_configuration[of demo_framework 1 2 3 4 empty_world TRAINER_KWARGS] main_demo
  by simp

text \<open>
  C6. When \<open>fine_optimal_lr\<close> returns \<open>lr\<close>, the attributes are those of the start with
  \<open>model.hparams.log_interval = -1\<close>, \<open>model.hparams.log_val_interval = -1\<close>,
  \<open>trainer.limit_train_batches = 1.0\<close> and \<open>model.hparams.learning_rate = lr\<close>, and nothing
  else is changed by the function; \<open>lr\<close> is what the last call of \<open>suggestion\<close> answered,
  on the result of the learning-rate search \<open>lr_find\<close> with \<open>min_lr = 1e-5\<close> and
  \<open>max_lr = 1e2\<close>.
\<close>

theorem fine_optimal_lr_frame:
  "fst (fine_optimal_lr fw trainer model train_dataloader val_dataloader w) = Inr lr \<longrightarrow>
     store (snd (fine_optimal_lr fw trainer model train_dataloader val_dataloader w))
       = (store w)((model, [''hparams'', ''log_interval'']) \<mapsto> PyInt (- 1),
                   (model, [''hparams'', ''log_val_interval'']) \<mapsto> PyInt (- 1),
                   (trainer, [''limit_train_batches'']) \<mapsto> PyFloat 1,
                   (model, [''hparams'', ''learning_rate'']) \<mapsto> lr) \<and>
     (\<exists>tuner res.
        (Lr_find tuner model train_dataloader val_dataloader (1 / 100000) 100, Inr (R_obj res))
          \<in> set (emitted (fine_optimal_lr fw trainer model train_dataloader val_dataloader) w) \<and>
        last (emitted (fine_optimal_lr fw trainer model train_dataloader val_dataloader) w)
          = (Suggestion res, Inr (R_val lr)))"
  by (auto simp: fine_optimal_lr_def calls andthen_setattr andthen_invoke getattr_def emitted_def
      split: sum.splits)

theorem fine_optimal_lr_frame_witness:
  "fst (fine_optimal_lr demo_framework 1 2 3 4 empty_world) = Inr (PyFloat (1 / 100)) \<and>
   store (snd (fine_optimal_lr demo_framework 1 2 3 4 empty_world))
     = Map.empty((2, [''hparams'', ''log_interval'']) \<mapsto> PyInt (- 1),
                 (2, [''hparams'', ''log_val_interval'']) \<mapsto> PyInt (- 1),
                 (1, [''limit_train_batches'']) \<mapsto> PyFloat 1,
                 (2, [''hparams'', ''learning_rate'']) \<mapsto> PyFloat (1 / 100))"
  using fine_optimal_lr_frame[of demo_framework 1 2 3 4 empty_world "PyFloat (1 / 100)"]
    fine_optimal_lr_demo
  by (simp add: empty_world_def)






text \<open>
  C10, corrected. \<open>plot_prediction\<close> calls \<open>model.plot_prediction\<close> at most ten times, with
  \<open>idx\<close> equal to 0, 1, 2, ... in this order, after the one call of \<open>model.predict\<close>; the
  number does not depend on how many windows the dataloader has. When it returns it has
  made exactly the ten calls with \<open>idx\<close> from 0 to 9, each with the two items that the answer
  of \<open>predict\<close> unpacks into. When it raises \<open>e\<close>, either its last call raised \<open>e\<close> (then
  \<open>predict\<close> raised and no plot call was made, or the plot call with \<open>idx = k\<close> raised after
  \<open>k\<close> calls that returned), or the answer of \<open>predict\<close> does not unpack into two items,
  unpacking it raised \<open>e\<close> and no plot call was made.
\<close>

theorem plot_prediction_ten_calls:
  "prefix (kinds (emitted (plot_prediction fw model val_dataloader) w)) plot_prediction_calls \<and>
   (fst (plot_prediction fw model val_dataloader w) = Inr () \<longrightarrow>
      filter is_plot_prediction (kinds (emitted (plot_prediction fw model val_dataloader) w))
        = [K_plot_prediction 0, K_plot_prediction 1, K_plot_prediction 2, K_plot_prediction 3,
           K_plot_prediction 4, K_plot_prediction 5, K_plot_prediction 6, K_plot_prediction 7,
           K_plot_prediction 8, K_plot_prediction 9] \<and>
      (\<exists>v raw x. two_items v = Inr (raw, x) \<and>
         hd (emitted (plot_prediction fw model val_dataloader) w)
           = (Model_predict_raw model val_dataloader TRAINER_KWARGS, Inr (R_object v)) \<and>
         calls_made (emitted (plot_prediction fw model val_dataloader) w)
           = Model_predict_raw model val_dataloader TRAINER_KWARGS #
             map (\<lambda>idx. Model_plot_prediction model x raw idx True) (map int [0..<10]))) \<and>
   (\<forall>e. fst (plot_prediction fw model val_dataloader w) = Inl e \<longrightarrow>
      snd (last (emitted (plot_prediction fw model val_dataloader) w)) = Inl e \<or>
      (\<exists>v. emitted (plot_prediction fw model val_dataloader) w
              = [(Model_predict_raw model val_dataloader TRAINER_KWARGS, Inr (R_object v))] \<and>
           two_items v = Inl e))"
proof (intro conjI impI)
  note p = performs_plot_prediction[of fw model val_dataloader]
  show "prefix (kinds (emitted (plot_prediction fw model val_dataloader) w))
          plot_prediction_calls"
    using performs_emitted(2)[OF p, of w] by simp
  show "\<forall>e. fst (plot_prediction fw model val_dataloader w) = Inl e \<longrightarrow>
      snd (last (emitted (plot_prediction fw model val_dataloader) w)) = Inl e \<or>
      (\<exists>v. emitted (plot_prediction fw model val_dataloader) w
              = [(Model_predict_raw model val_dataloader TRAINER_KWARGS, Inr (R_object v))] \<and>
           two_items v = Inl e)"
    using plot_prediction_outcome[of fw model val_dataloader w] by blast
  assume r: "fst (plot_prediction fw model val_dataloader w) = Inr ()"
  from performs_emitted(3)[OF p r]
  have k: "kinds (emitted (plot_prediction fw model val_dataloader) w) = plot_prediction_calls"
    by simp
  show "filter is_plot_prediction (kinds (emitted (plot_prediction fw model val_dataloader) w))
        = [K_plot_prediction 0, K_plot_prediction 1, K_plot_prediction 2, K_plot_prediction 3,
           K_plot_prediction 4, K_plot_prediction 5, K_plot_prediction 6, K_plot_prediction 7,
           K_plot_prediction 8, K_plot_prediction 9]"
    by (simp add: k plot_prediction_calls_def)
  show "\<exists>v raw x. two_items v = Inr (raw, x) \<and>
         hd (emitted (plot_prediction fw model val_dataloader) w)
           = (Model_predict_raw model val_dataloader TRAINER_KWARGS, Inr (R_object v)) \<and>
         calls_made (emitted (plot_prediction fw model val_dataloader) w)
           = Model_predict_raw model val_dataloader TRAINER_KWARGS #
             map (\<lambda>idx. Model_plot_prediction model x raw idx True) (map int [0..<10])"
    using plot_prediction_outcome[of fw model val_dataloader w] r by blast
qed

theorem plot_prediction_ten_calls_witness:
  "fst (plot_prediction demo_framework 2 4 empty_world) = Inr () \<and>
   length (filter is_plot_prediction
     (kinds (emitted (plot_prediction demo_framework 2 4) empty_world))) = 10 \<and>
   fst (plot_prediction three_windows_framework 2 4 empty_world) = Inl (Exn ''IndexError'') \<and>
   snd (last (emitted (plot_prediction three_windows_framework 2 4) empty_world))
     = Inl (Exn ''IndexError'')"
proof -
  have "length (filter is_plot_prediction
     (kinds (emitted (plot_prediction demo_framework 2 4) empty_world))) = 10"
    using plot_prediction_ten_calls[of demo_framework 2 4 empty_world] plot_prediction_demo
    by simp
  moreover have "snd (last (emitted (plot_prediction three_windows_framework 2 4) empty_world))
     = Inl (Exn ''IndexError'')"
  proof -
    have "length (kinds (emitted (plot_prediction three_windows_framework 2 4) empty_world)) = 5"
      by (simp add: plot_prediction_three_windows)
    then have "\<nexists>v. emitted (plot_prediction three_windows_framework 2 4) empty_world
              = [(Model_predict_raw 2 4 TRAINER_KWARGS, Inr (R_object v))]"
      by (auto simp: kinds_def)
    then show ?thesis
      using plot_prediction_ten_calls[of three_windows_framework 2 4 empty_world]
        plot_prediction_three_windows
      by blast
  qed
  ultimately show ?thesis
    using plot_prediction_demo plot_prediction_three_windows by blast
qed

text \<open>
  The claim as it was worded fails: when \<open>predict\<close> answers the named tuple of five fields,
  \<open>plot_prediction\<close> raises \<open>ValueError\<close> at the unpacking and has called
  \<open>model.plot_prediction\<close> not once; when the plot call for the window \<open>3\<close> raises, it has
  called it four times.
\<close>

theorem plot_prediction_fewer_calls:
  "fst (plot_prediction prediction_tuple_framework 2 4 empty_world) = Inl (Exn ''ValueError'') \<and>
   filter is_plot_prediction
     (kinds (emitted (plot_prediction prediction_tuple_framework 2 4) empty_world)) = [] \<and>
   fst (plot_prediction three_windows_framework 2 4 empty_world) = Inl (Exn ''IndexError'') \<and>
   length (filter is_plot_prediction
     (kinds (emitted (plot_prediction three_windows_framework 2 4) empty_world))) = 4"
  by (simp add: plot_prediction_tuple plot_prediction_three_windows)




end
